theory Spec2Isabelle
  imports Main "HOL-Library.Sublist"
begin

section \<open>maxmux: a credential-substituting reverse proxy (main.go)\<close>

text \<open>
  The program is one Go file. Its \<^verbatim>\<open>main\<close> loads a configuration, builds the set
  of accepted virtual keys, parses the upstream URL and installs an HTTP handler that
  checks the presented virtual key and hands accepted requests to a reverse proxy whose
  \<^verbatim>\<open>Director\<close> rewrites them.

  Go strings are byte sequences, so they are modelled as \<^typ>\<open>string\<close> (a list of
  8-bit characters); \<^verbatim>\<open>len\<close> is \<^const>\<open>length\<close> and slicing is
  \<^const>\<open>take\<close>/\<^const>\<open>drop\<close>.
\<close>

subsection \<open>Data: configuration, URLs, headers, requests, responses\<close>

text \<open>\<^verbatim>\<open>type Config struct\<close> (main.go, lines 17-22).\<close>

record Config =
  Port :: int
  Upstream :: string
  OAuthToken :: string
  VirtualKeys :: "string list"

text \<open>
  The fields of \<^verbatim>\<open>url.URL\<close> that the program reads or writes, and the path and
  query that it must leave alone.
\<close>

record URL =
  URL_Scheme :: string
  URL_Host :: string
  URL_Path :: string
  URL_RawQuery :: string

text \<open>
  \<^verbatim>\<open>http.Header\<close> is a Go map from header names to the list of the values of that
  name, one per header line; a name that is present has at least one value in a request
  read by the server. \<^verbatim>\<open>Get\<close>, \<^verbatim>\<open>Set\<close> and \<^verbatim>\<open>Del\<close> first bring the name
  they are given into its canonical form (\<^verbatim>\<open>textproto.CanonicalMIMEHeaderKey\<close>): if
  every byte of the name is a token byte, the first letter and each letter after a hyphen
  are made upper case and all other letters lower case; a name with any other byte is
  left as it is. The server stores inbound names in canonical form. \<^verbatim>\<open>Get\<close> returns
  the first value of the name, and the empty string when there is none; \<^verbatim>\<open>Set\<close>
  replaces all the values of the name by one; \<^verbatim>\<open>Del\<close> removes the name.
\<close>

type_synonym Header = "string \<rightharpoonup> string list"

definition ascii_lower :: "char \<Rightarrow> char" where
  "ascii_lower c =
     (case map_of (zip ''ABCDEFGHIJKLMNOPQRSTUVWXYZ'' ''abcdefghijklmnopqrstuvwxyz'') c of
        None \<Rightarrow> c
      | Some l \<Rightarrow> l)"

definition ascii_upper :: "char \<Rightarrow> char" where
  "ascii_upper c =
     (case map_of (zip ''abcdefghijklmnopqrstuvwxyz'' ''ABCDEFGHIJKLMNOPQRSTUVWXYZ'') c of
        None \<Rightarrow> c
      | Some u \<Rightarrow> u)"

definition validHeaderFieldByte :: "char \<Rightarrow> bool" where
  "validHeaderFieldByte c =
     (c \<in> set ''0123456789abcdefghijklmnopqrstuvwxyzABCDEFGHIJKLMNOPQRSTUVWXYZ'' \<or>
      c \<in> set [CHR ''!'', CHR ''#'', CHR ''$'', CHR ''%'', CHR ''&'', CHR 0x27, CHR ''*'',
                 CHR ''+'', CHR ''-'', CHR ''.'', CHR ''^'', CHR ''_'', CHR 0x60, CHR ''|'',
                 CHR ''~''])"

fun canonical_bytes :: "bool \<Rightarrow> string \<Rightarrow> string" where
  "canonical_bytes upper [] = []"
| "canonical_bytes upper (c # cs) =
     (let c = (if upper then ascii_upper c else ascii_lower c)
      in c # canonical_bytes (c = CHR ''-'') cs)"

definition CanonicalMIMEHeaderKey :: "string \<Rightarrow> string" where
  "CanonicalMIMEHeaderKey s =
     (if list_all validHeaderFieldByte s then canonical_bytes True s else s)"

definition Header_Get :: "Header \<Rightarrow> string \<Rightarrow> string" where
  "Header_Get h key =
     (case h (CanonicalMIMEHeaderKey key) of None \<Rightarrow> [] | Some [] \<Rightarrow> [] | Some (v # _) \<Rightarrow> v)"

definition Header_Set :: "Header \<Rightarrow> string \<Rightarrow> string \<Rightarrow> Header" where
  "Header_Set h key v = h(CanonicalMIMEHeaderKey key \<mapsto> [v])"

definition Header_Del :: "Header \<Rightarrow> string \<Rightarrow> Header" where
  "Header_Del h key = h(CanonicalMIMEHeaderKey key := None)"

text \<open>Indexing the map directly, \<^verbatim>\<open>h[key]\<close>: the values, none when the name is absent.\<close>

definition Header_values :: "Header \<Rightarrow> string \<Rightarrow> string list" where
  "Header_values h key = (case h key of None \<Rightarrow> [] | Some vs \<Rightarrow> vs)"

text \<open>
  The parts of \<^verbatim>\<open>http.Request\<close> that matter here. \<open>Host\<close> is the request's Host
  (Go keeps it in a field of its own, not in the header map); \<open>Body\<close> stands for the bytes
  of the body stream.
\<close>

record Request =
  Method :: string
  Url :: URL
  Host :: string
  Header :: Header
  Body :: string
  RemoteAddr :: string

record Response =
  StatusCode :: nat
  RespHeader :: Header
  RespBody :: string

subsection \<open>Library functions the program calls\<close>

text \<open>\<^verbatim>\<open>strings.HasPrefix\<close> and \<^verbatim>\<open>strings.TrimPrefix\<close>.\<close>

definition HasPrefix :: "string \<Rightarrow> string \<Rightarrow> bool" where
  "HasPrefix s p = prefix p s"

definition TrimPrefix :: "string \<Rightarrow> string \<Rightarrow> string" where
  "TrimPrefix s p = (if HasPrefix s p then drop (length p) s else s)"

text \<open>
  \<^verbatim>\<open>http.Error(w, msg, code)\<close> on a fresh response writer: it sets the content type
  to plain text, forbids sniffing, writes the status code and prints the message with
  \<^verbatim>\<open>fmt.Fprintln\<close>, that is, followed by one newline.
\<close>

definition http_Error :: "string \<Rightarrow> nat \<Rightarrow> Response" where
  "http_Error msg code =
     \<lparr>StatusCode = code,
      RespHeader = [''Content-Type'' \<mapsto> [''text/plain; charset=utf-8''],
                    ''X-Content-Type-Options'' \<mapsto> [''nosniff'']],
      RespBody = msg @ [CHR 0x0A]\<rparr>"

definition StatusUnauthorized :: nat where
  "StatusUnauthorized = 401"

definition StatusBadGateway :: nat where
  "StatusBadGateway = 502"

subsection \<open>loadConfig and maskToken\<close>

text \<open>
  \<^verbatim>\<open>loadConfig\<close> (lines 24-40). Reading the file and decoding the YAML are the
  environment's: the argument is their outcome, either the error of one of the two steps
  or the decoded structure, in which a field the file does not give has Go's zero value.
  The function itself fills in the two defaults.
\<close>

datatype load_error = ReadingConfig | ParsingConfig

definition loadConfig :: "load_error + Config \<Rightarrow> load_error + Config" where
  "loadConfig decoded =
     (case decoded of
        Inl err \<Rightarrow> Inl err
      | Inr cfg \<Rightarrow>
          (let cfg = (if Port cfg = 0 then cfg\<lparr>Port := 4000\<rparr> else cfg);
               cfg = (if Upstream cfg = '''' then cfg\<lparr>Upstream := ''https://api.anthropic.com''\<rparr>
                      else cfg)
           in Inr cfg))"

text \<open>\<^verbatim>\<open>maskToken\<close> (lines 42-47).\<close>

definition maskToken :: "string \<Rightarrow> string" where
  "maskToken t =
     (if length t \<le> 16 then ''***''
      else take 12 t @ ''...'' @ drop (length t - 6) t)"

subsection \<open>The set of valid keys\<close>

text \<open>
  Lines 71-74: a \<^verbatim>\<open>map[string]bool\<close> filled by a loop over the configured list.
  Reading a Go map at a key it does not hold gives the zero value, \<^verbatim>\<open>false\<close>.
\<close>

type_synonym KeySet = "string \<rightharpoonup> bool"

fun fill_validKeys :: "KeySet \<Rightarrow> string list \<Rightarrow> KeySet" where
  "fill_validKeys m [] = m"
| "fill_validKeys m (k # ks) = fill_validKeys (m(k \<mapsto> True)) ks"

definition make_validKeys :: "string list \<Rightarrow> KeySet" where
  "make_validKeys ks = fill_validKeys Map.empty ks"

definition key_lookup :: "KeySet \<Rightarrow> string \<Rightarrow> bool" where
  "key_lookup m k = (case m k of None \<Rightarrow> False | Some b \<Rightarrow> b)"

subsection \<open>The proxy: Director and ErrorHandler\<close>

text \<open>
  What the closures of \<^verbatim>\<open>main\<close> capture: the parsed upstream, the real token and the
  set of valid keys.
\<close>

record Gateway =
  upstream :: URL
  oauthToken :: string
  validKeys :: KeySet

text \<open>\<^verbatim>\<open>Director\<close> (lines 90-113), statement by statement; the debug log is left out.\<close>

definition Director :: "URL \<Rightarrow> string \<Rightarrow> Request \<Rightarrow> Request" where
  "Director up token req =
     (let req = req\<lparr>Url := (Url req)\<lparr>URL_Scheme := URL_Scheme up\<rparr>\<rparr>;
          req = req\<lparr>Url := (Url req)\<lparr>URL_Host := URL_Host up\<rparr>\<rparr>;
          req = req\<lparr>Host := URL_Host up\<rparr>;
          req = req\<lparr>Header := Header_Set (Header req) ''Authorization'' (''Bearer '' @ token)\<rparr>;
          req = req\<lparr>Header := Header_Del (Header req) ''X-Api-Key''\<rparr>;
          existing = Header_Get (Header req) ''Anthropic-Beta'';
          req = (if existing \<noteq> ''''
                 then req\<lparr>Header := Header_Set (Header req) ''Anthropic-Beta''
                                         (existing @ '',oauth-2025-04-20'')\<rparr>
                 else req\<lparr>Header := Header_Set (Header req) ''Anthropic-Beta''
                                         ''oauth-2025-04-20''\<rparr>);
          req = req\<lparr>Header := Header_Set (Header req)
                                  ''Anthropic-Dangerous-Direct-Browser-Access'' ''true''\<rparr>
      in req)"

text \<open>\<^verbatim>\<open>ErrorHandler\<close> (lines 114-117); the error log is left out.\<close>

definition ErrorHandler :: "Request \<Rightarrow> string \<Rightarrow> Response" where
  "ErrorHandler r err =
     http_Error ''{\"error\":{\"message\":\"upstream error\",\"type\":\"proxy_error\"}}''
       StatusBadGateway"

subsection \<open>The reverse proxy of the library\<close>

text \<open>
  \<^verbatim>\<open>httputil.ReverseProxy.ServeHTTP\<close> is the library's. With a director it clones the
  inbound request, runs the director on the clone, and then edits the clone further
  before it calls the transport. The helpers it uses come first.

  \<^verbatim>\<open>strings.Split\<close> at one separator byte, \<^verbatim>\<open>strings.Join\<close>,
  \<^verbatim>\<open>textproto.TrimString\<close> (which trims space, tab, newline and carriage return) and
  the trimming of optional white space (space and tab) of \<^verbatim>\<open>httpguts\<close>.
\<close>

fun Split :: "string \<Rightarrow> char \<Rightarrow> string list" where
  "Split [] sep = [[]]"
| "Split (c # cs) sep =
     (if c = sep then [] # Split cs sep
      else (case Split cs sep of [] \<Rightarrow> [[c]] | p # ps \<Rightarrow> (c # p) # ps))"

fun Join :: "string list \<Rightarrow> string \<Rightarrow> string" where
  "Join [] sep = []"
| "Join [x] sep = x"
| "Join (x # y # ys) sep = x @ sep @ Join (y # ys) sep"

definition isASCIISpace :: "char \<Rightarrow> bool" where
  "isASCIISpace b = (b = CHR '' '' \<or> b = CHR 0x09 \<or> b = CHR 0x0A \<or> b = CHR 0x0D)"

definition TrimString :: "string \<Rightarrow> string" where
  "TrimString s = rev (dropWhile isASCIISpace (rev (dropWhile isASCIISpace s)))"

definition isOWS :: "char \<Rightarrow> bool" where
  "isOWS b = (b = CHR '' '' \<or> b = CHR 0x09)"

definition trimOWS :: "string \<Rightarrow> string" where
  "trimOWS x = rev (dropWhile isOWS (rev (dropWhile isOWS x)))"

text \<open>
  \<^verbatim>\<open>httpguts.HeaderValuesContainsToken\<close>: some comma-separated part of some value
  is, after trimming, the token, compared without regard to the case of ASCII letters;
  a part with a byte outside ASCII never matches.
\<close>

definition tokenEqual :: "string \<Rightarrow> string \<Rightarrow> bool" where
  "tokenEqual t1 t2 =
     (length t1 = length t2 \<and> list_all (\<lambda>b. \<not> digit7 b) t1 \<and>
      map ascii_lower t1 = map ascii_lower t2)"

definition headerValueContainsToken :: "string \<Rightarrow> string \<Rightarrow> bool" where
  "headerValueContainsToken v token =
     list_ex (\<lambda>part. tokenEqual (trimOWS part) token) (Split v CHR '','')"

definition HeaderValuesContainsToken :: "string list \<Rightarrow> string \<Rightarrow> bool" where
  "HeaderValuesContainsToken vs token = list_ex (\<lambda>v. headerValueContainsToken v token) vs"

text \<open>
  \<^verbatim>\<open>upgradeType\<close>: the value of \<^verbatim>\<open>Upgrade\<close> when \<^verbatim>\<open>Connection\<close> holds the
  token \<^verbatim>\<open>Upgrade\<close>, and the empty string otherwise. \<^verbatim>\<open>ascii.IsPrint\<close>: every
  byte is between space and tilde.
\<close>

definition upgradeType :: "Header \<Rightarrow> string" where
  "upgradeType h =
     (if \<not> HeaderValuesContainsToken (Header_values h ''Connection'') ''Upgrade'' then ''''
      else Header_Get h ''Upgrade'')"

definition IsPrint :: "string \<Rightarrow> bool" where
  "IsPrint s = list_all (\<lambda>b. (32::nat) \<le> of_char b \<and> of_char b \<le> (126::nat)) s"

text \<open>
  \<^verbatim>\<open>removeHopByHopHeaders\<close>: for every value of \<^verbatim>\<open>Connection\<close> and every
  comma-separated part of it that is not empty after trimming, the header of that name
  is deleted; then the fixed hop-by-hop headers are deleted. \<open>connection_fields\<close> lists
  the parts in the order of the two nested loops.
\<close>

definition hopHeaders :: "string list" where
  "hopHeaders =
     [''Connection'', ''Proxy-Connection'', ''Keep-Alive'', ''Proxy-Authenticate'',
      ''Proxy-Authorization'', ''Te'', ''Trailer'', ''Transfer-Encoding'', ''Upgrade'']"

definition connection_fields :: "Header \<Rightarrow> string list" where
  "connection_fields h =
     concat (map (\<lambda>f. filter (\<lambda>sf. sf \<noteq> '''') (map TrimString (Split f CHR '','')))
               (Header_values h ''Connection''))"

definition removeHopByHopHeaders :: "Header \<Rightarrow> Header" where
  "removeHopByHopHeaders h = foldl Header_Del (foldl Header_Del h (connection_fields h)) hopHeaders"

text \<open>
  \<^verbatim>\<open>net.SplitHostPort\<close>: the port is what follows the last colon; the host is what
  precedes it, or, when the address starts with a bracket, what stands between the
  brackets, which must end just before that colon. No result means an error.
\<close>

definition SplitHostPort :: "string \<Rightarrow> (string \<times> string) option" where
  "SplitHostPort hostport =
     (if CHR '':'' \<notin> set hostport then None
      else
        (let port = rev (takeWhile (\<lambda>c. c \<noteq> CHR '':'') (rev hostport));
             front = take (length hostport - length port - 1) hostport
         in if hd hostport = CHR ''[''
            then (if CHR '']'' \<notin> set hostport then None
                  else
                    (let host = takeWhile (\<lambda>c. c \<noteq> CHR '']'') (tl hostport)
                     in if front \<noteq> ''['' @ host @ '']'' then None
                        else if CHR ''['' \<in> set (tl hostport) then None
                        else if CHR '']'' \<in> set port then None
                        else Some (host, port)))
            else if CHR '':'' \<in> set front then None
            else if CHR ''['' \<in> set hostport then None
            else if CHR '']'' \<in> set hostport then None
            else Some (front, port)))"

text \<open>
  The edits of \<^verbatim>\<open>ServeHTTP\<close> between the director's return and the call of the
  transport, in the library's order; \<open>req\<close> is the inbound request and \<open>outreq\<close> the
  clone as the director left it. The hop-by-hop headers are removed; \<^verbatim>\<open>Te: trailers\<close>
  is put back when the inbound request had it; for a protocol upgrade \<^verbatim>\<open>Connection\<close>
  and \<^verbatim>\<open>Upgrade\<close> are put back; the client's address is appended to
  \<^verbatim>\<open>X-Forwarded-For\<close> (a name present without values stands for Go's nil entry,
  which suppresses the header); and a request without \<^verbatim>\<open>User-Agent\<close> gets an empty
  one. The handler never parses the form, so the library's cleaning of the query does
  not apply.
\<close>

definition proxy_outreq :: "Request \<Rightarrow> Request \<Rightarrow> Request" where
  "proxy_outreq req outreq =
     (let reqUpType = upgradeType (Header outreq);
          h = removeHopByHopHeaders (Header outreq);
          h = (if HeaderValuesContainsToken (Header_values (Header req) ''Te'') ''trailers''
               then Header_Set h ''Te'' ''trailers'' else h);
          h = (if reqUpType \<noteq> ''''
               then Header_Set (Header_Set h ''Connection'' ''Upgrade'') ''Upgrade'' reqUpType
               else h);
          h = (case SplitHostPort (RemoteAddr req) of
                 None \<Rightarrow> h
               | Some (clientIP, port) \<Rightarrow>
                   (case h ''X-Forwarded-For'' of
                      None \<Rightarrow> Header_Set h ''X-Forwarded-For'' clientIP
                    | Some [] \<Rightarrow> h
                    | Some (p # ps) \<Rightarrow>
                        Header_Set h ''X-Forwarded-For''
                          (Join (p # ps) '', '' @ '', '' @ clientIP)));
          h = (case h ''User-Agent'' of
                 None \<Rightarrow> Header_Set h ''User-Agent'' ''''
               | Some vs \<Rightarrow> h)
      in outreq\<lparr>Header := h\<rparr>)"

text \<open>
  \<^verbatim>\<open>ServeHTTP\<close> itself. When the upgrade type of the rewritten request has a byte
  that is not printable, the error handler is called with the inbound request and the
  transport is not called at all. Otherwise the edited request is handed to the transport
  \<open>rt\<close> once; an error of the transport goes to the error handler, a response is relayed
  without its hop-by-hop headers. The transport is a parameter. The second component of
  the result lists the requests handed to the transport, in order. Left out: the
  cancellation of the request's context, informational responses, trailers, and the
  switch of protocols on a 101 response.
\<close>

definition ServeHTTP ::
  "(Request \<Rightarrow> Request) \<Rightarrow> (Request \<Rightarrow> string \<Rightarrow> Response) \<Rightarrow>
   (Request \<Rightarrow> string + Response) \<Rightarrow> Request \<Rightarrow> Response \<times> Request list" where
  "ServeHTTP director errorHandler rt req =
     (let outreq = director req
      in if \<not> IsPrint (upgradeType (Header outreq))
         then (errorHandler req ''client tried to switch to invalid protocol'', [])
         else
           (let outreq = proxy_outreq req outreq
            in case rt outreq of
                 Inl err \<Rightarrow> (errorHandler outreq err, [outreq])
               | Inr res \<Rightarrow>
                   (res\<lparr>RespHeader := removeHopByHopHeaders (RespHeader res)\<rparr>, [outreq])))"

subsection \<open>The handler\<close>

text \<open>Lines 124-127: the virtual key a request presents.\<close>

definition virtualKey :: "Request \<Rightarrow> string" where
  "virtualKey r =
     (let auth = Header_Get (Header r) ''Authorization''
      in if HasPrefix auth ''Bearer '' then TrimPrefix auth ''Bearer '' else '''')"

text \<open>
  \<^verbatim>\<open>handler\<close> (lines 120-162); the log records are left out. The result is the
  response written to the caller and the list of requests handed to the transport.
\<close>

definition handler ::
  "Gateway \<Rightarrow> (Request \<Rightarrow> string + Response) \<Rightarrow> Request \<Rightarrow> Response \<times> Request list" where
  "handler g rt r =
     (if \<not> key_lookup (validKeys g) (virtualKey r)
      then (http_Error
              ''{\"error\":{\"message\":\"invalid virtual key\",\"type\":\"authentication_error\"}}''
              StatusUnauthorized, [])
      else ServeHTTP (Director (upstream g) (oauthToken g)) ErrorHandler rt r)"

text \<open>
  Lines 145-153: the value logged at debug level for one header line. Inbound names are
  canonical, and on them \<^verbatim>\<open>strings.EqualFold(name, "Authorization")\<close> compares
  letters without regard to case.
\<close>

definition EqualFold_Authorization :: "string \<Rightarrow> bool" where
  "EqualFold_Authorization name = (map ascii_lower name = ''authorization'')"

definition debug_header_value :: "string \<Rightarrow> string \<Rightarrow> string" where
  "debug_header_value name v = (if EqualFold_Authorization name then maskToken v else v)"

subsection \<open>Startup\<close>

text \<open>
  \<^verbatim>\<open>main\<close> up to the call of \<^verbatim>\<open>http.ListenAndServe\<close> (lines 62-79 and
  164-166). \<^verbatim>\<open>log.Fatal()\<close> writes its record and exits the process, so each of
  the three fatal branches ends the run before the listener is opened. The URL parser
  \<^verbatim>\<open>url.Parse\<close> is the library's and is a parameter here. The outcome is either
  the fatal message or the port and the gateway that the server is started with.
\<close>

datatype startup = Fatal string | ListenAndServe int Gateway

definition main_startup ::
  "(string \<Rightarrow> string + URL) \<Rightarrow> load_error + Config \<Rightarrow> startup" where
  "main_startup url_Parse decoded =
     (case loadConfig decoded of
        Inl err \<Rightarrow> Fatal ''failed to load config''
      | Inr cfg \<Rightarrow>
          if OAuthToken cfg = '''' then Fatal ''oauth_token is required in config''
          else
            (let keys = make_validKeys (VirtualKeys cfg)
             in case url_Parse (Upstream cfg) of
                  Inl err \<Rightarrow> Fatal ''invalid upstream URL''
                | Inr up \<Rightarrow>
                    ListenAndServe (Port cfg)
                      \<lparr>upstream = up, oauthToken = OAuthToken cfg, validKeys = keys\<rparr>))"

text \<open>
  What \<^verbatim>\<open>url.Parse\<close> returns on two kinds of strings without control bytes. For a
  string that starts with a colon it returns the error \<^verbatim>\<open>missing protocol scheme\<close>.
  For a string that has no colon, slash, question mark, hash or percent sign, such as a
  bare host name, it returns no error and a URL whose path is the whole string while
  scheme, host and query are empty (a relative reference). Used at such strings only.
\<close>

definition url_Parse_fragment :: "string \<Rightarrow> string + URL" where
  "url_Parse_fragment s =
     (if take 1 s = '':'' then Inl ''missing protocol scheme''
      else Inr \<lparr>URL_Scheme = '''', URL_Host = '''', URL_Path = s, URL_RawQuery = ''''\<rparr>)"

subsection \<open>Occurrence of a string in a request\<close>

text \<open>
  \<^verbatim>\<open>strings.Contains\<close>, and the predicate that a string appears somewhere in a
  request: in its method, its URL, its Host, its body, or the name or a value of one of
  its headers.
\<close>

definition Contains :: "string \<Rightarrow> string \<Rightarrow> bool" where
  "Contains s substr = sublist substr s"


subsection \<open>Concrete inputs\<close>

text \<open>
  A gateway as the README configures it, a request as Claude Code sends it, and two
  transports: one that cannot reach the upstream and one whose upstream answers 200.
\<close>

definition example_upstream :: URL where
  "example_upstream =
     \<lparr>URL_Scheme = ''https'', URL_Host = ''api.anthropic.com'', URL_Path = '''',
      URL_RawQuery = ''''\<rparr>"

definition example_gateway :: "string list \<Rightarrow> Gateway" where
  "example_gateway ks =
     \<lparr>upstream = example_upstream, oauthToken = ''sk-ant-REDACTED'',
      validKeys = make_validKeys ks\<rparr>"

definition example_request :: "Header \<Rightarrow> string \<Rightarrow> Request" where
  "example_request h b =
     \<lparr>Method = ''POST'',
      Url = \<lparr>URL_Scheme = '''', URL_Host = '''', URL_Path = ''/v1/messages'',
             URL_RawQuery = ''beta=true''\<rparr>,
      Host = ''localhost:4000'', Header = h, Body = b, RemoteAddr = ''127.0.0.1:50000''\<rparr>"

definition unreachable :: "Request \<Rightarrow> string + Response" where
  "unreachable outreq = Inl ''dial tcp: connection refused''"

definition answers_200 :: "Request \<Rightarrow> string + Response" where
  "answers_200 outreq =
     Inr \<lparr>StatusCode = 200, RespHeader = [''X-Test'' \<mapsto> [''1'']], RespBody = ''ok''\<rparr>"

text \<open>The request as the director leaves it, for an inbound request and a gateway.\<close>

abbreviation outbound :: "Gateway \<Rightarrow> Request \<Rightarrow> Request" where
  "outbound g r \<equiv> Director (upstream g) (oauthToken g) r"

text \<open>The request that reaches the transport for an inbound request that is forwarded.\<close>

definition sent_request :: "Gateway \<Rightarrow> Request \<Rightarrow> Request" where
  "sent_request g r = proxy_outreq r (outbound g r)"

section \<open>Properties\<close>

subsection \<open>Helper facts\<close>

lemma fill_validKeys_lookup:
  "key_lookup (fill_validKeys m ks) k = (k \<in> set ks \<or> key_lookup m k)"
  by (induction ks arbitrary: m) (auto simp: key_lookup_def)

lemma key_lookup_empty: "key_lookup Map.empty k = False"
  by (simp add: key_lookup_def)

lemma make_validKeys_lookup: "key_lookup (make_validKeys ks) k = (k \<in> set ks)"
  by (simp add: make_validKeys_def fill_validKeys_lookup key_lookup_empty)

text \<open>The names that the program and the library use as literals are canonical.\<close>

lemma canonical_Authorization: "CanonicalMIMEHeaderKey ''Authorization'' = ''Authorization''"
  by code_simp

lemma canonical_X_Api_Key: "CanonicalMIMEHeaderKey ''X-Api-Key'' = ''X-Api-Key''"
  by code_simp

lemma canonical_Anthropic_Beta: "CanonicalMIMEHeaderKey ''Anthropic-Beta'' = ''Anthropic-Beta''"
  by code_simp

lemma canonical_Browser_Access:
  "CanonicalMIMEHeaderKey ''Anthropic-Dangerous-Direct-Browser-Access''
     = ''Anthropic-Dangerous-Direct-Browser-Access''"
  by code_simp

lemma canonical_Te: "CanonicalMIMEHeaderKey ''Te'' = ''Te''"
  by code_simp

lemma canonical_Connection: "CanonicalMIMEHeaderKey ''Connection'' = ''Connection''"
  by code_simp

lemma canonical_Upgrade: "CanonicalMIMEHeaderKey ''Upgrade'' = ''Upgrade''"
  by code_simp

lemma canonical_X_Forwarded_For: "CanonicalMIMEHeaderKey ''X-Forwarded-For'' = ''X-Forwarded-For''"
  by code_simp

lemma canonical_User_Agent: "CanonicalMIMEHeaderKey ''User-Agent'' = ''User-Agent''"
  by code_simp

lemma canonical_hopHeaders: "map CanonicalMIMEHeaderKey hopHeaders = hopHeaders"
  by code_simp

lemmas canonical_literals =
  canonical_Authorization canonical_X_Api_Key canonical_Anthropic_Beta canonical_Browser_Access
  canonical_Te canonical_Connection canonical_Upgrade canonical_X_Forwarded_For
  canonical_User_Agent

lemma handler_rejected:
  "\<not> key_lookup (validKeys g) (virtualKey r) \<Longrightarrow>
   handler g rt r =
     (http_Error
        ''{\"error\":{\"message\":\"invalid virtual key\",\"type\":\"authentication_error\"}}''
        StatusUnauthorized, [])"
  by (simp add: handler_def)

lemma handler_accepted:
  "key_lookup (validKeys g) (virtualKey r) \<Longrightarrow>
   handler g rt r = ServeHTTP (Director (upstream g) (oauthToken g)) ErrorHandler rt r"
  by (simp add: handler_def)

text \<open>The header map that the director leaves, written as one update of the inbound map.\<close>

lemma Director_Header:
  "Header (Director up token req) =
     (Header req)
       (''Authorization'' \<mapsto> [''Bearer '' @ token],
        ''X-Api-Key'' := None,
        ''Anthropic-Beta'' \<mapsto>
           [if Header_Get (Header req) ''Anthropic-Beta'' \<noteq> ''''
            then Header_Get (Header req) ''Anthropic-Beta'' @ '',oauth-2025-04-20''
            else ''oauth-2025-04-20''],
        ''Anthropic-Dangerous-Direct-Browser-Access'' \<mapsto> [''true''])"
  by (simp add: Director_def Let_def Header_Set_def Header_Del_def Header_Get_def
      canonical_literals)

lemma Director_frame:
  "Director up token req =
     req\<lparr>Url := (Url req)\<lparr>URL_Scheme := URL_Scheme up, URL_Host := URL_Host up\<rparr>,
         Host := URL_Host up,
         Header := Header (Director up token req)\<rparr>"
  by (simp add: Director_def Let_def)

lemma Director_other_headers:
  "name \<notin> {''Authorization'', ''X-Api-Key'', ''Anthropic-Beta'',
             ''Anthropic-Dangerous-Direct-Browser-Access''} \<Longrightarrow>
   Header (Director up token req) name = Header req name"
  by (simp add: Director_Header)

lemma upgradeType_Director:
  "upgradeType (Header (Director up token req)) = upgradeType (Header req)"
  by (simp add: upgradeType_def Header_values_def Header_Get_def canonical_literals
      Director_other_headers)

lemma connection_fields_Director:
  "connection_fields (Header (Director up token req)) = connection_fields (Header req)"
  by (simp add: connection_fields_def Header_values_def Director_other_headers)

text \<open>What the removal of the hop-by-hop headers leaves of a header map.\<close>

lemma foldl_Header_Del:
  "foldl Header_Del h names name =
     (if name \<in> CanonicalMIMEHeaderKey ` set names then None else h name)"
  by (induction names arbitrary: h) (auto simp: Header_Del_def)

lemma removeHopByHopHeaders_apply:
  "removeHopByHopHeaders h name =
     (if name \<in> CanonicalMIMEHeaderKey ` set (connection_fields h) \<or> name \<in> set hopHeaders
      then None else h name)"
proof -
  have "CanonicalMIMEHeaderKey ` set hopHeaders = set hopHeaders"
    using canonical_hopHeaders by (metis image_set)
  then show ?thesis
    by (simp add: removeHopByHopHeaders_def foldl_Header_Del)
qed

text \<open>The library's edits touch the header map only.\<close>

lemma proxy_outreq_frame:
  "proxy_outreq req outreq = outreq\<lparr>Header := Header (proxy_outreq req outreq)\<rparr>"
  by (simp add: proxy_outreq_def Let_def)

lemma proxy_outreq_other_headers:
  assumes "name \<notin> {''Te'', ''Connection'', ''Upgrade'', ''X-Forwarded-For'', ''User-Agent''}"
  shows "Header (proxy_outreq req outreq) name = removeHopByHopHeaders (Header outreq) name"
  using assms
  by (simp add: proxy_outreq_def Let_def Header_Set_def canonical_literals
      split: option.split list.split prod.split)


lemma ServeHTTP_sent:
  "IsPrint (upgradeType (Header (director req))) \<Longrightarrow>
   snd (ServeHTTP director errorHandler rt req) = [proxy_outreq req (director req)]"
  by (simp add: ServeHTTP_def Let_def split: sum.split)

lemma ServeHTTP_not_sent:
  "\<not> IsPrint (upgradeType (Header (director req))) \<Longrightarrow>
   snd (ServeHTTP director errorHandler rt req) = []"
  by (simp add: ServeHTTP_def Let_def)

lemma handler_accepted_sent:
  "key_lookup (validKeys g) (virtualKey r) \<Longrightarrow> IsPrint (upgradeType (Header r)) \<Longrightarrow>
   snd (handler g rt r) = [sent_request g r]"
  by (simp add: handler_accepted ServeHTTP_sent upgradeType_Director sent_request_def)

lemma handler_accepted_not_sent:
  "key_lookup (validKeys g) (virtualKey r) \<Longrightarrow> \<not> IsPrint (upgradeType (Header r)) \<Longrightarrow>
   snd (handler g rt r) = []"
  by (simp add: handler_accepted ServeHTTP_not_sent upgradeType_Director)

text \<open>A request without \<^verbatim>\<open>Connection\<close> header asks for no upgrade and names no header.\<close>

lemma no_Connection_upgradeType:
  "h ''Connection'' = None \<Longrightarrow> upgradeType h = ''''"
  by (simp add: upgradeType_def Header_values_def HeaderValuesContainsToken_def)

lemma no_Connection_fields:
  "h ''Connection'' = None \<Longrightarrow> connection_fields h = []"
  by (simp add: connection_fields_def Header_values_def)

lemma IsPrint_empty: "IsPrint ''''"
  by (simp add: IsPrint_def)

subsection \<open>The accepted keys are a set\<close>

text \<open>
  Claim C8. Whether a presented credential is accepted depends only on whether it is an
  element of the configured list: two lists with the same elements (so also a list with
  entries repeated or reordered) accept the same credentials, and with the empty list the
  handler rejects every request with 401 and sends nothing upstream.
\<close>

theorem validKeys_membership_only:
  "(key_lookup (make_validKeys ks) c \<longleftrightarrow> c \<in> set ks) \<and>
   (set ks = set ks' \<longrightarrow>
      key_lookup (make_validKeys ks) c = key_lookup (make_validKeys ks') c) \<and>
   (validKeys g = make_validKeys [] \<longrightarrow>
      StatusCode (fst (handler g rt r)) = 401 \<and> snd (handler g rt r) = [])"
proof -
  have empty: "StatusCode (fst (handler g rt r)) = 401 \<and> snd (handler g rt r) = []"
    if "validKeys g = make_validKeys []"
  proof -
    from that have "\<not> key_lookup (validKeys g) (virtualKey r)"
      by (simp add: make_validKeys_lookup)
    then show ?thesis
      by (simp add: handler_rejected http_Error_def StatusUnauthorized_def)
  qed
  show ?thesis
    using empty by (simp add: make_validKeys_lookup)
qed

theorem validKeys_membership_only_witness:
  "set [''sk-proxy-key-1'', ''sk-proxy-key-2'']
     = set [''sk-proxy-key-2'', ''sk-proxy-key-1'', ''sk-proxy-key-2''] \<and>
   key_lookup (make_validKeys [''sk-proxy-key-1'', ''sk-proxy-key-2'']) ''sk-proxy-key-2'' \<and>
   key_lookup (make_validKeys [''sk-proxy-key-2'', ''sk-proxy-key-1'', ''sk-proxy-key-2''])
     ''sk-proxy-key-2'' \<and>
   validKeys (example_gateway []) = make_validKeys [] \<and>
   StatusCode (fst (handler (example_gateway []) answers_200
      (example_request [''Authorization'' \<mapsto> [''Bearer sk-proxy-key-2'']] ''{}''))) = 401 \<and>
   snd (handler (example_gateway []) answers_200
      (example_request [''Authorization'' \<mapsto> [''Bearer sk-proxy-key-2'']] ''{}'')) = []"
proof -
  have same: "set [''sk-proxy-key-1'', ''sk-proxy-key-2'']
     = set [''sk-proxy-key-2'', ''sk-proxy-key-1'', ''sk-proxy-key-2'']"
    by auto
  have cfg: "validKeys (example_gateway []) = make_validKeys []"
    by (simp add: example_gateway_def)
  have mem: "''sk-proxy-key-2'' \<in> set [''sk-proxy-key-1'', ''sk-proxy-key-2'']"
    by simp
  show ?thesis
    using same cfg mem
      validKeys_membership_only [of "[''sk-proxy-key-1'', ''sk-proxy-key-2'']" "''sk-proxy-key-2''"
        "[''sk-proxy-key-2'', ''sk-proxy-key-1'', ''sk-proxy-key-2'']" "example_gateway []"
        answers_200
        "example_request [''Authorization'' \<mapsto> [''Bearer sk-proxy-key-2'']] ''{}''"]
    by blast
qed

subsection \<open>The rewrite of an accepted request\<close>

text \<open>
  Claim C10. For every accepted request, the director sets the Host of the request to the
  host of the configured upstream, the library's later edits leave it there, and so every
  request that is handed to the transport carries the upstream's host as Host and as the
  host of its URL: the Host that the client sent does not reach the upstream. A request
  whose upgrade type is printable is handed to the transport.
\<close>

theorem outbound_Host_is_upstream:
  assumes "key_lookup (validKeys g) (virtualKey r)"
  shows "Host (outbound g r) = URL_Host (upstream g) \<and>
         URL_Host (Url (outbound g r)) = URL_Host (upstream g) \<and>
         Host (sent_request g r) = URL_Host (upstream g) \<and>
         URL_Host (Url (sent_request g r)) = URL_Host (upstream g) \<and>
         (IsPrint (upgradeType (Header r)) \<longrightarrow> snd (handler g rt r) = [sent_request g r]) \<and>
         (\<forall>out \<in> set (snd (handler g rt r)).
            Host out = URL_Host (upstream g) \<and> URL_Host (Url out) = URL_Host (upstream g))"
proof -
  have h: "Host (outbound g r) = URL_Host (upstream g)"
    by (subst Director_frame) simp
  have u: "URL_Host (Url (outbound g r)) = URL_Host (upstream g)"
    by (subst Director_frame) simp
  have sh: "Host (sent_request g r) = URL_Host (upstream g)"
    unfolding sent_request_def by (subst proxy_outreq_frame) (simp add: h)
  have su: "URL_Host (Url (sent_request g r)) = URL_Host (upstream g)"
    unfolding sent_request_def by (subst proxy_outreq_frame) (simp add: u)
  have sent: "IsPrint (upgradeType (Header r)) \<longrightarrow> snd (handler g rt r) = [sent_request g r]"
    using assms by (simp add: handler_accepted_sent)
  have every: "\<forall>out \<in> set (snd (handler g rt r)).
            Host out = URL_Host (upstream g) \<and> URL_Host (Url out) = URL_Host (upstream g)"
  proof (cases "IsPrint (upgradeType (Header r))")
    case True
    with assms show ?thesis
      by (simp add: handler_accepted_sent sh su)
  next
    case False
    with assms show ?thesis
      by (simp add: handler_accepted_not_sent)
  qed
  from h u sh su sent every show ?thesis
    by blast
qed

theorem outbound_Host_is_upstream_witness:
  "key_lookup (validKeys (example_gateway [''sk-proxy-key-1'']))
     (virtualKey (example_request [''Authorization'' \<mapsto> [''Bearer sk-proxy-key-1'']] ''{}'')) \<and>
   Host (example_request [''Authorization'' \<mapsto> [''Bearer sk-proxy-key-1'']] ''{}'')
     = ''localhost:4000'' \<and>
   snd (handler (example_gateway [''sk-proxy-key-1'']) unreachable
          (example_request [''Authorization'' \<mapsto> [''Bearer sk-proxy-key-1'']] ''{}''))
     = [sent_request (example_gateway [''sk-proxy-key-1''])
          (example_request [''Authorization'' \<mapsto> [''Bearer sk-proxy-key-1'']] ''{}'')] \<and>
   Host (sent_request (example_gateway [''sk-proxy-key-1''])
           (example_request [''Authorization'' \<mapsto> [''Bearer sk-proxy-key-1'']] ''{}''))
     = ''api.anthropic.com''"
proof -
  let ?r = "example_request [''Authorization'' \<mapsto> [''Bearer sk-proxy-key-1'']] ''{}''"
  let ?g = "example_gateway [''sk-proxy-key-1'']"
  have acc: "key_lookup (validKeys ?g) (virtualKey ?r)"
    by (simp add: example_gateway_def example_request_def make_validKeys_lookup virtualKey_def
        Header_Get_def canonical_literals HasPrefix_def TrimPrefix_def)
  have up: "URL_Host (upstream ?g) = ''api.anthropic.com''"
    by (simp add: example_gateway_def example_upstream_def)
  have req: "Host ?r = ''localhost:4000''"
    by (simp add: example_request_def)
  have pr: "IsPrint (upgradeType (Header ?r))"
    by (simp add: no_Connection_upgradeType example_request_def IsPrint_empty)
  show ?thesis
    using acc req up pr outbound_Host_is_upstream [OF acc, of unreachable] by simp
qed

text \<open>
  Claim C6, as the code has it. For every accepted request the director removes any
  \<^verbatim>\<open>X-Api-Key\<close> header; it changes the scheme and the host of the URL, the Host of
  the request and the headers \<^verbatim>\<open>Authorization\<close>, \<^verbatim>\<open>Anthropic-Beta\<close> and
  \<^verbatim>\<open>Anthropic-Dangerous-Direct-Browser-Access\<close>, and nothing else: method, path, query
  string, body and every other header are the inbound ones. The request that reaches the
  transport is the director's result after the library's edits of its header map: it has
  no \<^verbatim>\<open>X-Api-Key\<close> either, its method, path, query string and body are the inbound
  ones, and every header is as it was inbound except the four above, the hop-by-hop
  headers, the headers that the inbound \<^verbatim>\<open>Connection\<close> header names,
  \<^verbatim>\<open>X-Forwarded-For\<close> and \<^verbatim>\<open>User-Agent\<close>. A request whose upgrade type is
  printable is handed to the transport once, any other not at all.
\<close>

theorem Director_and_proxy_change_only_listed_parts:
  assumes "key_lookup (validKeys g) (virtualKey r)"
  shows "Header (outbound g r) ''X-Api-Key'' = None \<and>
         Method (outbound g r) = Method r \<and>
         URL_Path (Url (outbound g r)) = URL_Path (Url r) \<and>
         URL_RawQuery (Url (outbound g r)) = URL_RawQuery (Url r) \<and>
         Body (outbound g r) = Body r \<and>
         (\<forall>name. name \<notin> {''Authorization'', ''X-Api-Key'', ''Anthropic-Beta'',
                           ''Anthropic-Dangerous-Direct-Browser-Access''} \<longrightarrow>
                 Header (outbound g r) name = Header r name) \<and>
         outbound g r =
           r\<lparr>Url := (Url r)\<lparr>URL_Scheme := URL_Scheme (upstream g),
                                URL_Host := URL_Host (upstream g)\<rparr>,
             Host := URL_Host (upstream g),
             Header := Header (outbound g r)\<rparr> \<and>
         (IsPrint (upgradeType (Header r)) \<longrightarrow> snd (handler g rt r) = [sent_request g r]) \<and>
         (\<not> IsPrint (upgradeType (Header r)) \<longrightarrow> snd (handler g rt r) = []) \<and>
         sent_request g r = (outbound g r)\<lparr>Header := Header (sent_request g r)\<rparr> \<and>
         Header (sent_request g r) ''X-Api-Key'' = None \<and>
         Method (sent_request g r) = Method r \<and>
         URL_Path (Url (sent_request g r)) = URL_Path (Url r) \<and>
         URL_RawQuery (Url (sent_request g r)) = URL_RawQuery (Url r) \<and>
         Body (sent_request g r) = Body r \<and>
         (\<forall>name. name \<notin> {''Authorization'', ''X-Api-Key'', ''Anthropic-Beta'',
                           ''Anthropic-Dangerous-Direct-Browser-Access'',
                           ''X-Forwarded-For'', ''User-Agent''} \<union> set hopHeaders \<union>
                          CanonicalMIMEHeaderKey ` set (connection_fields (Header r)) \<longrightarrow>
                 Header (sent_request g r) name = Header r name)"
proof -
  have key: "Header (outbound g r) ''X-Api-Key'' = None"
    by (simp add: Director_Header)
  have others: "\<forall>name. name \<notin> {''Authorization'', ''X-Api-Key'', ''Anthropic-Beta'',
                           ''Anthropic-Dangerous-Direct-Browser-Access''} \<longrightarrow>
                 Header (outbound g r) name = Header r name"
    by (simp add: Director_Header)
  have frame: "outbound g r =
           r\<lparr>Url := (Url r)\<lparr>URL_Scheme := URL_Scheme (upstream g),
                                URL_Host := URL_Host (upstream g)\<rparr>,
             Host := URL_Host (upstream g),
             Header := Header (outbound g r)\<rparr>"
    by (rule Director_frame)
  have m: "Method (outbound g r) = Method r"
    by (subst frame) simp
  have p: "URL_Path (Url (outbound g r)) = URL_Path (Url r)"
    by (subst frame) simp
  have q: "URL_RawQuery (Url (outbound g r)) = URL_RawQuery (Url r)"
    by (subst frame) simp
  have b: "Body (outbound g r) = Body r"
    by (subst frame) simp
  have sent: "IsPrint (upgradeType (Header r)) \<longrightarrow> snd (handler g rt r) = [sent_request g r]"
    using assms by (simp add: handler_accepted_sent)
  have unsent: "\<not> IsPrint (upgradeType (Header r)) \<longrightarrow> snd (handler g rt r) = []"
    using assms by (simp add: handler_accepted_not_sent)
  have sframe: "sent_request g r = (outbound g r)\<lparr>Header := Header (sent_request g r)\<rparr>"
    unfolding sent_request_def by (rule proxy_outreq_frame)
  have skey: "Header (sent_request g r) ''X-Api-Key'' = None"
    by (simp add: sent_request_def proxy_outreq_other_headers removeHopByHopHeaders_apply key)
  have sm: "Method (sent_request g r) = Method r"
    by (subst sframe) (simp add: m)
  have sp: "URL_Path (Url (sent_request g r)) = URL_Path (Url r)"
    by (subst sframe) (simp add: p)
  have sq: "URL_RawQuery (Url (sent_request g r)) = URL_RawQuery (Url r)"
    by (subst sframe) (simp add: q)
  have sb: "Body (sent_request g r) = Body r"
    by (subst sframe) (simp add: b)
  have sothers: "\<forall>name. name \<notin> {''Authorization'', ''X-Api-Key'', ''Anthropic-Beta'',
                           ''Anthropic-Dangerous-Direct-Browser-Access'',
                           ''X-Forwarded-For'', ''User-Agent''} \<union> set hopHeaders \<union>
                          CanonicalMIMEHeaderKey ` set (connection_fields (Header r)) \<longrightarrow>
                 Header (sent_request g r) name = Header r name"
  proof (intro allI impI)
    fix name
    assume out: "name \<notin> {''Authorization'', ''X-Api-Key'', ''Anthropic-Beta'',
                           ''Anthropic-Dangerous-Direct-Browser-Access'',
                           ''X-Forwarded-For'', ''User-Agent''} \<union> set hopHeaders \<union>
                          CanonicalMIMEHeaderKey ` set (connection_fields (Header r))"
    then have hop: "name \<notin> set hopHeaders"
      and con: "name \<notin> CanonicalMIMEHeaderKey ` set (connection_fields (Header r))"
      and four: "name \<notin> {''Authorization'', ''X-Api-Key'', ''Anthropic-Beta'',
                           ''Anthropic-Dangerous-Direct-Browser-Access''}"
      and two: "name \<noteq> ''X-Forwarded-For''" "name \<noteq> ''User-Agent''"
      by auto
    from hop have lib: "name \<notin> {''Te'', ''Connection'', ''Upgrade'', ''X-Forwarded-For'',
                                  ''User-Agent''}"
      using two by (auto simp: hopHeaders_def)
    have "Header (sent_request g r) name = removeHopByHopHeaders (Header (outbound g r)) name"
      unfolding sent_request_def using lib by (rule proxy_outreq_other_headers)
    also have "\<dots> = Header (outbound g r) name"
      using hop con by (simp add: removeHopByHopHeaders_apply connection_fields_Director)
    also have "\<dots> = Header r name"
      using four by (rule Director_other_headers)
    finally show "Header (sent_request g r) name = Header r name" .
  qed
  from key m p q b others frame sent unsent sframe skey sm sp sq sb sothers show ?thesis
    by blast
qed

theorem Director_and_proxy_change_only_listed_parts_witness:
  "key_lookup (validKeys (example_gateway [''sk-proxy-key-1'']))
     (virtualKey (example_request
        [''Authorization'' \<mapsto> [''Bearer sk-proxy-key-1''], ''X-Api-Key'' \<mapsto> [''sk-ant-api03-x''],
         ''Content-Type'' \<mapsto> [''application/json'']] ''{}'')) \<and>
   snd (handler (example_gateway [''sk-proxy-key-1'']) unreachable
     (example_request
        [''Authorization'' \<mapsto> [''Bearer sk-proxy-key-1''], ''X-Api-Key'' \<mapsto> [''sk-ant-api03-x''],
         ''Content-Type'' \<mapsto> [''application/json'']] ''{}''))
     = [sent_request (example_gateway [''sk-proxy-key-1''])
         (example_request
            [''Authorization'' \<mapsto> [''Bearer sk-proxy-key-1''], ''X-Api-Key'' \<mapsto> [''sk-ant-api03-x''],
             ''Content-Type'' \<mapsto> [''application/json'']] ''{}'')] \<and>
   Header (sent_request (example_gateway [''sk-proxy-key-1''])
     (example_request
        [''Authorization'' \<mapsto> [''Bearer sk-proxy-key-1''], ''X-Api-Key'' \<mapsto> [''sk-ant-api03-x''],
         ''Content-Type'' \<mapsto> [''application/json'']] ''{}'')) ''X-Api-Key'' = None \<and>
   Header (sent_request (example_gateway [''sk-proxy-key-1''])
     (example_request
        [''Authorization'' \<mapsto> [''Bearer sk-proxy-key-1''], ''X-Api-Key'' \<mapsto> [''sk-ant-api03-x''],
         ''Content-Type'' \<mapsto> [''application/json'']] ''{}'')) ''Content-Type''
     = Some [''application/json''] \<and>
   URL_Path (Url (sent_request (example_gateway [''sk-proxy-key-1''])
     (example_request
        [''Authorization'' \<mapsto> [''Bearer sk-proxy-key-1''], ''X-Api-Key'' \<mapsto> [''sk-ant-api03-x''],
         ''Content-Type'' \<mapsto> [''application/json'']] ''{}''))) = ''/v1/messages''"
proof -
  let ?r = "example_request
        [''Authorization'' \<mapsto> [''Bearer sk-proxy-key-1''], ''X-Api-Key'' \<mapsto> [''sk-ant-api03-x''],
         ''Content-Type'' \<mapsto> [''application/json'']] ''{}''"
  let ?g = "example_gateway [''sk-proxy-key-1'']"
  have acc: "key_lookup (validKeys ?g) (virtualKey ?r)"
    by (simp add: example_gateway_def example_request_def make_validKeys_lookup virtualKey_def
        Header_Get_def canonical_literals HasPrefix_def TrimPrefix_def)
  have inb: "Header ?r ''Content-Type'' = Some [''application/json''] \<and>
     URL_Path (Url ?r) = ''/v1/messages''"
    by (simp add: example_request_def)
  have pr: "IsPrint (upgradeType (Header ?r))"
    by (simp add: no_Connection_upgradeType example_request_def IsPrint_empty)
  have other: "''Content-Type'' \<notin> {''Authorization'', ''X-Api-Key'', ''Anthropic-Beta'',
                           ''Anthropic-Dangerous-Direct-Browser-Access'',
                           ''X-Forwarded-For'', ''User-Agent''} \<union> set hopHeaders \<union>
                          CanonicalMIMEHeaderKey ` set (connection_fields (Header ?r))"
    by (simp add: hopHeaders_def no_Connection_fields example_request_def)
  show ?thesis
    using acc inb pr other
      Director_and_proxy_change_only_listed_parts [OF acc, of unreachable]
    by metis
qed

text \<open>
  The claim as the specification words it fails at this very request. Besides the
  destination and the three headers it names, the Host changes (from the gateway's own
  address to the upstream's), and the request that reaches the transport has two headers
  that were not inbound: \<^verbatim>\<open>X-Forwarded-For\<close> with the client's address and an empty
  \<^verbatim>\<open>User-Agent\<close>.
\<close>

theorem Host_and_forwarding_headers_change:
  "key_lookup (validKeys (example_gateway [''sk-proxy-key-1'']))
     (virtualKey (example_request
        [''Authorization'' \<mapsto> [''Bearer sk-proxy-key-1''], ''X-Api-Key'' \<mapsto> [''sk-ant-api03-x''],
         ''Content-Type'' \<mapsto> [''application/json'']] ''{}'')) \<and>
   snd (handler (example_gateway [''sk-proxy-key-1'']) answers_200
     (example_request
        [''Authorization'' \<mapsto> [''Bearer sk-proxy-key-1''], ''X-Api-Key'' \<mapsto> [''sk-ant-api03-x''],
         ''Content-Type'' \<mapsto> [''application/json'']] ''{}''))
     = [sent_request (example_gateway [''sk-proxy-key-1''])
         (example_request
            [''Authorization'' \<mapsto> [''Bearer sk-proxy-key-1''], ''X-Api-Key'' \<mapsto> [''sk-ant-api03-x''],
             ''Content-Type'' \<mapsto> [''application/json'']] ''{}'')] \<and>
   Host (example_request
        [''Authorization'' \<mapsto> [''Bearer sk-proxy-key-1''], ''X-Api-Key'' \<mapsto> [''sk-ant-api03-x''],
         ''Content-Type'' \<mapsto> [''application/json'']] ''{}'') = ''localhost:4000'' \<and>
   Host (sent_request (example_gateway [''sk-proxy-key-1''])
     (example_request
        [''Authorization'' \<mapsto> [''Bearer sk-proxy-key-1''], ''X-Api-Key'' \<mapsto> [''sk-ant-api03-x''],
         ''Content-Type'' \<mapsto> [''application/json'']] ''{}'')) = ''api.anthropic.com'' \<and>
   Header (example_request
        [''Authorization'' \<mapsto> [''Bearer sk-proxy-key-1''], ''X-Api-Key'' \<mapsto> [''sk-ant-api03-x''],
         ''Content-Type'' \<mapsto> [''application/json'']] ''{}'') ''X-Forwarded-For'' = None \<and>
   Header (sent_request (example_gateway [''sk-proxy-key-1''])
     (example_request
        [''Authorization'' \<mapsto> [''Bearer sk-proxy-key-1''], ''X-Api-Key'' \<mapsto> [''sk-ant-api03-x''],
         ''Content-Type'' \<mapsto> [''application/json'']] ''{}'')) ''X-Forwarded-For''
     = Some [''127.0.0.1''] \<and>
   Header (example_request
        [''Authorization'' \<mapsto> [''Bearer sk-proxy-key-1''], ''X-Api-Key'' \<mapsto> [''sk-ant-api03-x''],
         ''Content-Type'' \<mapsto> [''application/json'']] ''{}'') ''User-Agent'' = None \<and>
   Header (sent_request (example_gateway [''sk-proxy-key-1''])
     (example_request
        [''Authorization'' \<mapsto> [''Bearer sk-proxy-key-1''], ''X-Api-Key'' \<mapsto> [''sk-ant-api03-x''],
         ''Content-Type'' \<mapsto> [''application/json'']] ''{}'')) ''User-Agent'' = Some ['''']"
proof -
  let ?r = "example_request
        [''Authorization'' \<mapsto> [''Bearer sk-proxy-key-1''], ''X-Api-Key'' \<mapsto> [''sk-ant-api03-x''],
         ''Content-Type'' \<mapsto> [''application/json'']] ''{}''"
  let ?g = "example_gateway [''sk-proxy-key-1'']"
  have acc: "key_lookup (validKeys ?g) (virtualKey ?r)"
    by (simp add: example_gateway_def example_request_def make_validKeys_lookup virtualKey_def
        Header_Get_def canonical_literals HasPrefix_def TrimPrefix_def)
  have pr: "IsPrint (upgradeType (Header ?r))"
    by (simp add: no_Connection_upgradeType example_request_def IsPrint_empty)
  have sent: "snd (handler ?g answers_200 ?r) = [sent_request ?g ?r]"
    using acc pr by (rule handler_accepted_sent)
  have h0: "Host ?r = ''localhost:4000''"
    by (simp add: example_request_def)
  have "Host (sent_request ?g ?r) = Host (outbound ?g ?r)"
    unfolding sent_request_def by (subst proxy_outreq_frame) simp
  also have "\<dots> = ''api.anthropic.com''"
    by (subst Director_frame) (simp add: example_gateway_def example_upstream_def)
  finally have h1: "Host (sent_request ?g ?r) = ''api.anthropic.com''" .
  have x0: "Header ?r ''X-Forwarded-For'' = None"
    by (simp add: example_request_def)
  have u0: "Header ?r ''User-Agent'' = None"
    by (simp add: example_request_def)
  have con: "connection_fields (Header (outbound ?g ?r)) = []"
    by (simp add: connection_fields_Director no_Connection_fields example_request_def)
  have up: "upgradeType (Header (outbound ?g ?r)) = ''''"
    by (simp add: upgradeType_Director no_Connection_upgradeType example_request_def)
  have rx: "removeHopByHopHeaders (Header (outbound ?g ?r)) ''X-Forwarded-For'' = None"
    by (simp add: removeHopByHopHeaders_apply con hopHeaders_def Director_other_headers x0)
  have ru: "removeHopByHopHeaders (Header (outbound ?g ?r)) ''User-Agent'' = None"
    by (simp add: removeHopByHopHeaders_apply con hopHeaders_def Director_other_headers u0)
  have te: "\<not> HeaderValuesContainsToken (Header_values (Header ?r) ''Te'') ''trailers''"
    by (simp add: Header_values_def HeaderValuesContainsToken_def example_request_def)
  have ip: "SplitHostPort (RemoteAddr ?r) = Some (''127.0.0.1'', ''50000'')"
    by (simp add: example_request_def SplitHostPort_def)
  have x1: "Header (sent_request ?g ?r) ''X-Forwarded-For'' = Some [''127.0.0.1'']"
    by (simp add: sent_request_def proxy_outreq_def Let_def up te ip rx ru Header_Set_def
        canonical_literals)
  have u1: "Header (sent_request ?g ?r) ''User-Agent'' = Some ['''']"
    by (simp add: sent_request_def proxy_outreq_def Let_def up te ip rx ru Header_Set_def
        canonical_literals)
  from acc sent h0 h1 x0 x1 u0 u1 show ?thesis
    by blast
qed

subsection \<open>The credential swap\<close>

text \<open>
  The library removes the headers that the \<^verbatim>\<open>Connection\<close> header names after the
  director has run. A client that names \<^verbatim>\<open>Authorization\<close> there has the header
  that the director has just set removed again.
\<close>

lemma Connection_names_Authorization:
  assumes "''Authorization'' \<in> CanonicalMIMEHeaderKey ` set (connection_fields (Header r))"
  shows "Header (sent_request g r) ''Authorization'' = None"
  using assms
  by (simp add: sent_request_def proxy_outreq_other_headers removeHopByHopHeaders_apply
      connection_fields_Director)




subsection \<open>Rejection\<close>

text \<open>
  Claim C2, as the code has it. The presented credential is the first
  \<^verbatim>\<open>Authorization\<close> value without its \<^verbatim>\<open>Bearer\<close> prefix, or the empty string
  when the header is missing or lacks the prefix. For every configured list of keys, the
  empty one too, a request whose presented credential is not in the list gets status 401,
  a body that is the JSON error object followed by one newline (\<^verbatim>\<open>http.Error\<close>
  prints the message as a line), and nothing is sent upstream.
\<close>

theorem unknown_key_rejected_401:
  assumes "validKeys g = make_validKeys ks"
    and "virtualKey r \<notin> set ks"
  shows "virtualKey r =
           (if prefix ''Bearer '' (Header_Get (Header r) ''Authorization'')
            then drop (length ''Bearer '') (Header_Get (Header r) ''Authorization'') else '''') \<and>
         StatusCode (fst (handler g rt r)) = 401 \<and>
         RespBody (fst (handler g rt r)) = ''{\"error\":{\"message\":\"invalid virtual key\",\"type\":\"authentication_error\"}}'' @ [CHR 0x0A] \<and>
         snd (handler g rt r) = []"
proof -
  have rej: "\<not> key_lookup (validKeys g) (virtualKey r)"
    using assms by (simp add: make_validKeys_lookup)
  have vk: "virtualKey r =
           (if prefix ''Bearer '' (Header_Get (Header r) ''Authorization'')
            then drop (length ''Bearer '') (Header_Get (Header r) ''Authorization'') else '''')"
    by (simp add: virtualKey_def Let_def HasPrefix_def TrimPrefix_def)
  from vk show ?thesis
    by (simp add: handler_rejected [OF rej] http_Error_def StatusUnauthorized_def)
qed

theorem unknown_key_rejected_401_witness:
  "validKeys (example_gateway []) = make_validKeys [] \<and>
   virtualKey (example_request [''Authorization'' \<mapsto> [''Bearer sk-proxy-key-9'']] ''{}'')
     \<notin> set [] \<and>
   StatusCode (fst (handler (example_gateway []) answers_200
      (example_request [''Authorization'' \<mapsto> [''Bearer sk-proxy-key-9'']] ''{}''))) = 401 \<and>
   snd (handler (example_gateway []) answers_200
      (example_request [''Authorization'' \<mapsto> [''Bearer sk-proxy-key-9'']] ''{}'')) = []"
proof -
  have cfg: "validKeys (example_gateway []) = make_validKeys []"
    by (simp add: example_gateway_def)
  have non: "virtualKey (example_request [''Authorization'' \<mapsto> [''Bearer sk-proxy-key-9'']] ''{}'')
     \<notin> set []"
    by simp
  show ?thesis
    using cfg non unknown_key_rejected_401 [OF cfg non, of answers_200]
    by blast
qed

text \<open>
  The body is not the bare JSON object of the specification: for a request without an
  \<^verbatim>\<open>Authorization\<close> header the status is 401 and the body differs from that object
  (it is one byte longer, the newline).
\<close>

theorem rejection_body_has_newline:
  "\<not> key_lookup (validKeys (example_gateway [''sk-proxy-key-1'']))
        (virtualKey (example_request Map.empty ''{}'')) \<and>
   StatusCode (fst (handler (example_gateway [''sk-proxy-key-1'']) answers_200
      (example_request Map.empty ''{}''))) = 401 \<and>
   RespBody (fst (handler (example_gateway [''sk-proxy-key-1'']) answers_200
      (example_request Map.empty ''{}''))) \<noteq> ''{\"error\":{\"message\":\"invalid virtual key\",\"type\":\"authentication_error\"}}'' \<and>
   length (RespBody (fst (handler (example_gateway [''sk-proxy-key-1'']) answers_200
      (example_request Map.empty ''{}'')))) = Suc (length ''{\"error\":{\"message\":\"invalid virtual key\",\"type\":\"authentication_error\"}}'')"
proof -
  have rej: "\<not> key_lookup (validKeys (example_gateway [''sk-proxy-key-1'']))
        (virtualKey (example_request Map.empty ''{}''))"
    by (simp add: example_gateway_def example_request_def make_validKeys_lookup virtualKey_def
        Header_Get_def canonical_literals HasPrefix_def)
  show ?thesis
    using rej by (simp add: handler_rejected [OF rej] http_Error_def StatusUnauthorized_def)
qed

text \<open>
  Claim C3, as the code has it. When the \<^verbatim>\<open>Authorization\<close> header is missing or
  its first value does not start with \<^verbatim>\<open>Bearer\<close> and a space, the presented
  credential is the empty string; provided the empty string is not itself one of the
  configured keys, it matches none of them and the request is rejected with 401 and
  nothing is sent upstream.
\<close>

theorem no_bearer_rejected_when_empty_key_not_configured:
  assumes "Header r ''Authorization'' = None \<or>
           \<not> prefix ''Bearer '' (Header_Get (Header r) ''Authorization'')"
    and "validKeys g = make_validKeys ks"
    and "'''' \<notin> set ks"
  shows "virtualKey r = '''' \<and>
         \<not> key_lookup (validKeys g) (virtualKey r) \<and>
         StatusCode (fst (handler g rt r)) = 401 \<and>
         snd (handler g rt r) = []"
proof -
  from assms(1) have "\<not> prefix ''Bearer '' (Header_Get (Header r) ''Authorization'')"
    by (auto simp: Header_Get_def canonical_literals)
  then have vk: "virtualKey r = ''''"
    by (simp add: virtualKey_def Let_def HasPrefix_def)
  with assms(2,3) have rej: "\<not> key_lookup (validKeys g) (virtualKey r)"
    by (simp add: make_validKeys_lookup)
  from vk rej show ?thesis
    by (simp add: handler_rejected [OF rej] http_Error_def StatusUnauthorized_def)
qed

theorem no_bearer_rejected_when_empty_key_not_configured_witness:
  "\<not> prefix ''Bearer '' (Header_Get (Header
       (example_request [''Authorization'' \<mapsto> [''Basic dXNlcjpwYXNz'']] ''{}'')) ''Authorization'') \<and>
   validKeys (example_gateway [''sk-proxy-key-1'']) = make_validKeys [''sk-proxy-key-1''] \<and>
   '''' \<notin> set [''sk-proxy-key-1''] \<and>
   virtualKey (example_request [''Authorization'' \<mapsto> [''Basic dXNlcjpwYXNz'']] ''{}'') = '''' \<and>
   StatusCode (fst (handler (example_gateway [''sk-proxy-key-1'']) answers_200
      (example_request [''Authorization'' \<mapsto> [''Basic dXNlcjpwYXNz'']] ''{}''))) = 401 \<and>
   snd (handler (example_gateway [''sk-proxy-key-1'']) answers_200
      (example_request [''Authorization'' \<mapsto> [''Basic dXNlcjpwYXNz'']] ''{}'')) = []"
proof -
  let ?r = "example_request [''Authorization'' \<mapsto> [''Basic dXNlcjpwYXNz'']] ''{}''"
  have nopre: "\<not> prefix ''Bearer '' (Header_Get (Header ?r) ''Authorization'')"
    by (simp add: example_request_def Header_Get_def canonical_literals)
  then have hyp: "Header ?r ''Authorization'' = None \<or>
           \<not> prefix ''Bearer '' (Header_Get (Header ?r) ''Authorization'')"
    by (rule disjI2)
  have cfg: "validKeys (example_gateway [''sk-proxy-key-1'']) = make_validKeys [''sk-proxy-key-1'']"
    by (simp add: example_gateway_def)
  have non: "'''' \<notin> set [''sk-proxy-key-1'']"
    by simp
  show ?thesis
    using nopre cfg non
      no_bearer_rejected_when_empty_key_not_configured [OF hyp cfg non, of answers_200]
    by blast
qed

text \<open>
  The claim as the specification words it fails when the configured list holds the
  empty string: a request without any \<^verbatim>\<open>Authorization\<close> header is then accepted
  and forwarded, and the caller gets the upstream's 200.
\<close>

theorem empty_key_configured_accepts_missing_header:
  "Header (example_request Map.empty ''{}'') ''Authorization'' = None \<and>
   virtualKey (example_request Map.empty ''{}'') = '''' \<and>
   key_lookup (validKeys (example_gateway [''sk-proxy-key-1'', '''']))
     (virtualKey (example_request Map.empty ''{}'')) \<and>
   StatusCode (fst (handler (example_gateway [''sk-proxy-key-1'', '''']) answers_200
      (example_request Map.empty ''{}''))) = 200 \<and>
   snd (handler (example_gateway [''sk-proxy-key-1'', '''']) answers_200
      (example_request Map.empty ''{}''))
     = [sent_request (example_gateway [''sk-proxy-key-1'', '''']) (example_request Map.empty ''{}'')]"
proof -
  let ?r = "example_request Map.empty ''{}''"
  let ?g = "example_gateway [''sk-proxy-key-1'', '''']"
  have h: "Header ?r ''Authorization'' = None"
    by (simp add: example_request_def)
  have vk: "virtualKey ?r = ''''"
    by (simp add: example_request_def virtualKey_def Header_Get_def canonical_literals
        HasPrefix_def)
  have acc: "key_lookup (validKeys ?g) (virtualKey ?r)"
    by (simp add: vk example_gateway_def make_validKeys_lookup)
  have pr: "IsPrint (upgradeType (Header ?r))"
    by (simp add: no_Connection_upgradeType example_request_def IsPrint_empty)
  then have pr': "IsPrint (upgradeType (Header (outbound ?g ?r)))"
    by (simp add: upgradeType_Director)
  have st: "StatusCode (fst (handler ?g answers_200 ?r)) = 200"
    using pr' by (simp add: handler_accepted [OF acc] ServeHTTP_def Let_def answers_200_def)
  have sent: "snd (handler ?g answers_200 ?r) = [sent_request ?g ?r]"
    using acc pr by (rule handler_accepted_sent)
  from h vk acc st sent show ?thesis
    by blast
qed

subsection \<open>Upstream failure\<close>

text \<open>
  An accepted request whose upgrade type is not printable is answered with the same 502
  by the error handler, and the transport is not called.
\<close>

lemma invalid_upgrade_502_unsent:
  assumes "key_lookup (validKeys g) (virtualKey r)"
    and "\<not> IsPrint (upgradeType (Header r))"
  shows "StatusCode (fst (handler g rt r)) = 502 \<and> snd (handler g rt r) = []"
  using assms(2)
  by (simp add: handler_accepted [OF assms(1)] ServeHTTP_def Let_def upgradeType_Director
      ErrorHandler_def http_Error_def StatusBadGateway_def)

text \<open>
  Claim C5, as the code has it. For every accepted request that is handed to the
  transport (its upgrade type is printable) and on which the transport returns an error
  instead of a response, the caller gets status 502 and a body that is the JSON error
  object followed by one newline (\<^verbatim>\<open>http.Error\<close> prints the message as a line), and
  the request was handed to the transport exactly once.
\<close>

theorem transport_failure_502_once:
  assumes "key_lookup (validKeys g) (virtualKey r)"
    and "IsPrint (upgradeType (Header r))"
    and "rt (sent_request g r) = Inl err"
  shows "StatusCode (fst (handler g rt r)) = 502 \<and>
         RespBody (fst (handler g rt r)) =
           ''{\"error\":{\"message\":\"upstream error\",\"type\":\"proxy_error\"}}'' @ [CHR 0x0A] \<and>
         snd (handler g rt r) = [sent_request g r] \<and>
         length (snd (handler g rt r)) = 1"
  using assms(2,3)
  by (simp add: handler_accepted [OF assms(1)] ServeHTTP_def Let_def upgradeType_Director
      sent_request_def ErrorHandler_def http_Error_def StatusBadGateway_def)

theorem transport_failure_502_once_witness:
  "key_lookup (validKeys (example_gateway [''sk-proxy-key-1'']))
     (virtualKey (example_request [''Authorization'' \<mapsto> [''Bearer sk-proxy-key-1'']] ''{}'')) \<and>
   IsPrint (upgradeType (Header
     (example_request [''Authorization'' \<mapsto> [''Bearer sk-proxy-key-1'']] ''{}''))) \<and>
   unreachable (sent_request (example_gateway [''sk-proxy-key-1''])
      (example_request [''Authorization'' \<mapsto> [''Bearer sk-proxy-key-1'']] ''{}''))
     = Inl ''dial tcp: connection refused'' \<and>
   StatusCode (fst (handler (example_gateway [''sk-proxy-key-1'']) unreachable
      (example_request [''Authorization'' \<mapsto> [''Bearer sk-proxy-key-1'']] ''{}''))) = 502 \<and>
   length (snd (handler (example_gateway [''sk-proxy-key-1'']) unreachable
      (example_request [''Authorization'' \<mapsto> [''Bearer sk-proxy-key-1'']] ''{}''))) = 1"
proof -
  let ?r = "example_request [''Authorization'' \<mapsto> [''Bearer sk-proxy-key-1'']] ''{}''"
  let ?g = "example_gateway [''sk-proxy-key-1'']"
  have acc: "key_lookup (validKeys ?g) (virtualKey ?r)"
    by (simp add: example_gateway_def example_request_def make_validKeys_lookup virtualKey_def
        Header_Get_def canonical_literals HasPrefix_def TrimPrefix_def)
  have pr: "IsPrint (upgradeType (Header ?r))"
    by (simp add: no_Connection_upgradeType example_request_def IsPrint_empty)
  have fails: "unreachable (sent_request ?g ?r) = Inl ''dial tcp: connection refused''"
    by (simp add: unreachable_def)
  show ?thesis
    using acc pr fails
      transport_failure_502_once [where rt = unreachable, OF acc pr fails]
    by blast
qed

text \<open>
  The body is not the bare JSON object of the specification: with an unreachable
  upstream the status is 502 and the body differs from that object (it is one byte
  longer, the newline).
\<close>

theorem upstream_error_body_has_newline:
  "key_lookup (validKeys (example_gateway [''sk-proxy-key-2'']))
     (virtualKey (example_request [''Authorization'' \<mapsto> [''Bearer sk-proxy-key-2'']] ''{}'')) \<and>
   StatusCode (fst (handler (example_gateway [''sk-proxy-key-2'']) unreachable
      (example_request [''Authorization'' \<mapsto> [''Bearer sk-proxy-key-2'']] ''{}''))) = 502 \<and>
   RespBody (fst (handler (example_gateway [''sk-proxy-key-2'']) unreachable
      (example_request [''Authorization'' \<mapsto> [''Bearer sk-proxy-key-2'']] ''{}'')))
     \<noteq> ''{\"error\":{\"message\":\"upstream error\",\"type\":\"proxy_error\"}}'' \<and>
   length (RespBody (fst (handler (example_gateway [''sk-proxy-key-2'']) unreachable
      (example_request [''Authorization'' \<mapsto> [''Bearer sk-proxy-key-2'']] ''{}''))))
     = Suc (length ''{\"error\":{\"message\":\"upstream error\",\"type\":\"proxy_error\"}}'')"
proof -
  let ?r = "example_request [''Authorization'' \<mapsto> [''Bearer sk-proxy-key-2'']] ''{}''"
  let ?g = "example_gateway [''sk-proxy-key-2'']"
  have acc: "key_lookup (validKeys ?g) (virtualKey ?r)"
    by (simp add: example_gateway_def example_request_def make_validKeys_lookup virtualKey_def
        Header_Get_def canonical_literals HasPrefix_def TrimPrefix_def)
  have pr: "IsPrint (upgradeType (Header (outbound ?g ?r)))"
    by (simp add: upgradeType_Director no_Connection_upgradeType example_request_def
        IsPrint_empty)
  show ?thesis
    using acc pr
    by (simp add: handler_accepted [OF acc] ServeHTTP_def Let_def unreachable_def
        ErrorHandler_def http_Error_def StatusBadGateway_def)
qed

subsection \<open>The capability flag\<close>

text \<open>
  The merge of \<^verbatim>\<open>Anthropic-Beta\<close> on a request that has no such header, and on one
  that has a single non-empty value.
\<close>

lemma Anthropic_Beta_absent:
  "Header r ''Anthropic-Beta'' = None \<Longrightarrow>
   Header (Director up token r) ''Anthropic-Beta'' = Some [''oauth-2025-04-20'']"
  by (simp add: Director_Header Header_Get_def canonical_literals)

lemma Anthropic_Beta_single:
  "Header r ''Anthropic-Beta'' = Some [v] \<Longrightarrow> v \<noteq> '''' \<Longrightarrow>
   Header (Director up token r) ''Anthropic-Beta'' = Some [v @ '',oauth-2025-04-20'']"
  by (simp add: Director_Header Header_Get_def canonical_literals)

text \<open>
  Whatever the inbound request holds, the director leaves one \<^verbatim>\<open>Anthropic-Beta\<close>
  value that ends with the flag.
\<close>

lemma Anthropic_Beta_flag_present:
  "\<exists>v. Header (Director up token r) ''Anthropic-Beta'' = Some [v] \<and>
       suffix ''oauth-2025-04-20'' v"
  by (simp add: Director_Header suffix_def)

text \<open>
  Claim C4 fails on the code when the client sends the header on more than one line. Go
  keeps one value per line, \<^verbatim>\<open>Header.Get\<close> reads only the first and
  \<^verbatim>\<open>Header.Set\<close> replaces them all: of the two flags of this accepted request the
  second is gone from what the director leaves and from the request handed to the
  transport.
\<close>

theorem second_Anthropic_Beta_line_is_lost:
  "key_lookup (validKeys (example_gateway [''sk-proxy-key-1'']))
     (virtualKey (example_request
        [''Authorization'' \<mapsto> [''Bearer sk-proxy-key-1''],
         ''Anthropic-Beta'' \<mapsto> [''prompt-caching-2024-07-31'', ''context-1m-2025-08-07'']] ''{}'')) \<and>
   Header (outbound (example_gateway [''sk-proxy-key-1''])
     (example_request
        [''Authorization'' \<mapsto> [''Bearer sk-proxy-key-1''],
         ''Anthropic-Beta'' \<mapsto> [''prompt-caching-2024-07-31'', ''context-1m-2025-08-07'']] ''{}''))
     ''Anthropic-Beta'' = Some [''prompt-caching-2024-07-31,oauth-2025-04-20''] \<and>
   \<not> Contains ''prompt-caching-2024-07-31,oauth-2025-04-20'' ''context-1m-2025-08-07'' \<and>
   snd (handler (example_gateway [''sk-proxy-key-1'']) answers_200
     (example_request
        [''Authorization'' \<mapsto> [''Bearer sk-proxy-key-1''],
         ''Anthropic-Beta'' \<mapsto> [''prompt-caching-2024-07-31'', ''context-1m-2025-08-07'']] ''{}''))
     = [sent_request (example_gateway [''sk-proxy-key-1''])
         (example_request
            [''Authorization'' \<mapsto> [''Bearer sk-proxy-key-1''],
             ''Anthropic-Beta'' \<mapsto> [''prompt-caching-2024-07-31'', ''context-1m-2025-08-07'']]
            ''{}'')] \<and>
   Header (sent_request (example_gateway [''sk-proxy-key-1''])
     (example_request
        [''Authorization'' \<mapsto> [''Bearer sk-proxy-key-1''],
         ''Anthropic-Beta'' \<mapsto> [''prompt-caching-2024-07-31'', ''context-1m-2025-08-07'']] ''{}''))
     ''Anthropic-Beta'' = Some [''prompt-caching-2024-07-31,oauth-2025-04-20'']"
proof -
  let ?r = "example_request
        [''Authorization'' \<mapsto> [''Bearer sk-proxy-key-1''],
         ''Anthropic-Beta'' \<mapsto> [''prompt-caching-2024-07-31'', ''context-1m-2025-08-07'']] ''{}''"
  let ?g = "example_gateway [''sk-proxy-key-1'']"
  have acc: "key_lookup (validKeys ?g) (virtualKey ?r)"
    by (simp add: example_gateway_def example_request_def make_validKeys_lookup virtualKey_def
        Header_Get_def canonical_literals HasPrefix_def TrimPrefix_def)
  have out: "Header (outbound ?g ?r) ''Anthropic-Beta''
      = Some [''prompt-caching-2024-07-31,oauth-2025-04-20'']"
    by (simp add: Director_Header Header_Get_def canonical_literals example_request_def)
  have lost: "\<not> Contains ''prompt-caching-2024-07-31,oauth-2025-04-20'' ''context-1m-2025-08-07''"
    unfolding Contains_def by (simp add: sublist_code(3))
  have pr: "IsPrint (upgradeType (Header ?r))"
    by (simp add: no_Connection_upgradeType example_request_def IsPrint_empty)
  have sent: "snd (handler ?g answers_200 ?r) = [sent_request ?g ?r]"
    using acc pr by (rule handler_accepted_sent)
  have con: "connection_fields (Header (outbound ?g ?r)) = []"
    by (simp add: connection_fields_Director no_Connection_fields example_request_def)
  have "Header (sent_request ?g ?r) ''Anthropic-Beta''
      = removeHopByHopHeaders (Header (outbound ?g ?r)) ''Anthropic-Beta''"
    by (simp add: sent_request_def proxy_outreq_other_headers)
  also have "\<dots> = Header (outbound ?g ?r) ''Anthropic-Beta''"
    by (simp add: removeHopByHopHeaders_apply con hopHeaders_def)
  finally have sout: "Header (sent_request ?g ?r) ''Anthropic-Beta''
      = Some [''prompt-caching-2024-07-31,oauth-2025-04-20'']"
    using out by simp
  from acc out lost sent sout show ?thesis
    by blast
qed

subsection \<open>Redaction in the log\<close>

text \<open>
  A value of more than 16 bytes is logged as its first 12 bytes, three dots and its last
  6 bytes; from 18 bytes on, the bytes between those two parts have no influence on what
  is logged.
\<close>

lemma maskToken_middle_hidden:
  assumes "18 \<le> length t"
  shows "maskToken (take 12 t @ m @ drop (length t - 6) t) = maskToken t"
proof -
  from assms have "maskToken t = take 12 t @ ''...'' @ drop (length t - 6) t"
    by (simp add: maskToken_def)
  moreover from assms
  have "maskToken (take 12 t @ m @ drop (length t - 6) t) =
          take 12 t @ ''...'' @ drop (length t - 6) t"
    by (simp add: maskToken_def min_def)
  ultimately show ?thesis
    by simp
qed

text \<open>
  A value of 17 or 18 bytes passes the length test, but its first 12 and last 6 bytes
  cover it completely: it can be read off the logged form.
\<close>

lemma maskToken_reveals_17_18:
  assumes "length t = 17 \<or> length t = 18"
  shows "take 12 (maskToken t) @ drop (33 - length t) (maskToken t) = t"
proof -
  from assms have m: "maskToken t = take 12 t @ ''...'' @ drop (length t - 6) t"
    by (auto simp: maskToken_def)
  from assms have "take 12 (maskToken t) = take 12 t"
    unfolding m by auto
  moreover from assms have "drop (33 - length t) (maskToken t) = drop 12 t"
    unfolding m by auto
  ultimately show ?thesis
    by (simp only: append_take_drop_id)
qed

text \<open>
  Claim C9 fails on the code for such values. The \<^verbatim>\<open>Authorization\<close> value of a
  client whose virtual key has 11 bytes is 18 bytes long; the debug record shows its
  first 12 and its last 6 bytes, which is all of it: dropping the three dots from what is
  logged gives the header value back, key included.
\<close>

theorem short_Authorization_value_logged_in_full:
  "length ''Bearer sk-proxy-k1'' = 18 \<and>
   debug_header_value ''Authorization'' ''Bearer sk-proxy-k1'' = ''Bearer sk-pr...oxy-k1'' \<and>
   take 12 (debug_header_value ''Authorization'' ''Bearer sk-proxy-k1'') @
     drop 15 (debug_header_value ''Authorization'' ''Bearer sk-proxy-k1'')
     = ''Bearer sk-proxy-k1''"
  by (simp add: debug_header_value_def EqualFold_Authorization_def ascii_lower_def maskToken_def)

subsection \<open>Startup\<close>

text \<open>
  Claim C7, as the code has it. If the configured shared credential is the empty string,
  or the URL parser returns an error for the upstream string (the default one when the
  configuration gives none), \<^verbatim>\<open>main\<close> ends in \<^verbatim>\<open>log.Fatal\<close> and never
  reaches \<^verbatim>\<open>ListenAndServe\<close>. The parser's error is the only test of the upstream:
  a string that parses without error is accepted whether or not it has a scheme and a
  host.
\<close>

theorem startup_fails_on_empty_token_or_parse_error:
  assumes "OAuthToken cfg = '''' \<or>
           (\<exists>err. url_Parse (if Upstream cfg = '''' then ''https://api.anthropic.com''
                             else Upstream cfg) = Inl err)"
  shows "(\<exists>msg. main_startup url_Parse (Inr cfg) = Fatal msg) \<and>
         (\<forall>port gw. main_startup url_Parse (Inr cfg) \<noteq> ListenAndServe port gw)"
proof -
  have "\<exists>msg. main_startup url_Parse (Inr cfg) = Fatal msg"
    using assms by (auto simp: main_startup_def loadConfig_def Let_def)
  then show ?thesis
    by auto
qed

theorem startup_fails_on_empty_token_or_parse_error_witness:
  "url_Parse_fragment
      (if Upstream \<lparr>Port = 0, Upstream = ''://api.anthropic.com'',
                     OAuthToken = ''sk-ant-REDACTED'',
                     VirtualKeys = [''sk-proxy-key-1'']\<rparr> = ''''
       then ''https://api.anthropic.com''
       else Upstream \<lparr>Port = 0, Upstream = ''://api.anthropic.com'',
                       OAuthToken = ''sk-ant-REDACTED'',
                       VirtualKeys = [''sk-proxy-key-1'']\<rparr>)
     = Inl ''missing protocol scheme'' \<and>
   main_startup url_Parse_fragment
      (Inr \<lparr>Port = 0, Upstream = ''://api.anthropic.com'',
            OAuthToken = ''sk-ant-REDACTED'',
            VirtualKeys = [''sk-proxy-key-1'']\<rparr>)
     = Fatal ''invalid upstream URL''"
proof -
  let ?cfg = "\<lparr>Port = 0, Upstream = ''://api.anthropic.com'',
               OAuthToken = ''sk-ant-REDACTED'',
               VirtualKeys = [''sk-proxy-key-1'']\<rparr>"
  have err: "url_Parse_fragment
      (if Upstream ?cfg = '''' then ''https://api.anthropic.com'' else Upstream ?cfg)
     = Inl ''missing protocol scheme''"
    by (simp add: url_Parse_fragment_def)
  then have hyp: "OAuthToken ?cfg = '''' \<or>
      (\<exists>err. url_Parse_fragment
          (if Upstream ?cfg = '''' then ''https://api.anthropic.com'' else Upstream ?cfg)
        = Inl err)"
    by blast
  have which: "main_startup url_Parse_fragment (Inr ?cfg) = Fatal msg \<Longrightarrow>
      msg = ''invalid upstream URL''" for msg
    by (simp add: main_startup_def loadConfig_def url_Parse_fragment_def)
  from startup_fails_on_empty_token_or_parse_error
    [where url_Parse = url_Parse_fragment and cfg = ?cfg, OF hyp]
  obtain msg where "main_startup url_Parse_fragment (Inr ?cfg) = Fatal msg"
    by blast
  with which [of msg] have "main_startup url_Parse_fragment (Inr ?cfg)
      = Fatal ''invalid upstream URL''"
    by simp
  with err show ?thesis
    by blast
qed

text \<open>
  The claim as the specification words it fails for an upstream string that parses as a
  relative reference: with \<^verbatim>\<open>upstream: api.anthropic.com\<close> the parsed URL has
  neither scheme nor host, yet \<^verbatim>\<open>main\<close> goes on to listen on the port.
\<close>

theorem upstream_without_scheme_starts_listening:
  "url_Parse_fragment ''api.anthropic.com''
     = Inr \<lparr>URL_Scheme = '''', URL_Host = '''', URL_Path = ''api.anthropic.com'',
            URL_RawQuery = ''''\<rparr> \<and>
   main_startup url_Parse_fragment
      (Inr \<lparr>Port = 0, Upstream = ''api.anthropic.com'',
            OAuthToken = ''sk-ant-REDACTED'',
            VirtualKeys = [''sk-proxy-key-1'']\<rparr>)
     = ListenAndServe 4000
         \<lparr>upstream = \<lparr>URL_Scheme = '''', URL_Host = '''', URL_Path = ''api.anthropic.com'',
                       URL_RawQuery = ''''\<rparr>,
          oauthToken = ''sk-ant-REDACTED'',
          validKeys = make_validKeys [''sk-proxy-key-1'']\<rparr>"
  by (simp add: main_startup_def loadConfig_def url_Parse_fragment_def)

end
